theory Spec2Isabelle
  imports Complex_Main
begin

section \<open>Regression metrics of the automated-ML tutorial notebook\<close>

text \<open>
  The notebook \<^verbatim>\<open>tutorials/regression-part2-automated-ml.ipynb\<close> evaluates the fitted
  model in two code cells. The first one is
  \<^verbatim>\<open>rmse = sqrt(mean_squared_error(y_actual, y_predict))\<close>,
  the second one is the loop
  \<^verbatim>\<open>
  sum_actuals = sum_errors = 0
  for actual_val, predict_val in zip(y_actual, y_predict):
      abs_error = actual_val - predict_val
      if abs_error < 0:
          abs_error = abs_error * -1
      sum_errors = sum_errors + abs_error
      sum_actuals = sum_actuals + actual_val
  mean_abs_percent_error = sum_errors / sum_actuals
  print(mean_abs_percent_error)
  print(1 - mean_abs_percent_error)
  \<close>
  The specification calls the two cells together \<open>evaluate\<close>: its \<open>rmse\<close> is the variable
  \<open>rmse\<close> of the first cell, its \<open>mape\<close> and \<open>accuracy\<close> are the two numbers the second
  cell prints.

  The types of the operands are those the notebook gives them: \<^verbatim>\<open>y_actual\<close> is a list of
  Python floats (\<^verbatim>\<open>y_test.values.flatten().tolist()\<close>) and \<^verbatim>\<open>y_predict\<close> is the numpy
  array that \<^verbatim>\<open>fitted_model.predict\<close> returns. Both sums start as the Python int \<open>0\<close>;
  after the first pass of the loop \<^verbatim>\<open>sum_errors\<close> is a \<^verbatim>\<open>numpy.float64\<close> and
  \<^verbatim>\<open>sum_actuals\<close> a Python float.

  The cells are embedded twice. The first embedding computes with exact reals and
  serves the statements about the form of the computation. The second one rounds every
  operation to double precision, as the cells do, and serves the statements whose truth
  depends on rounding.
\<close>

subsection \<open>Exceptions and float values\<close>

datatype py_error = ValueError | ZeroDivisionError

text \<open>A float: a finite number, an infinity or not-a-number. The sign of zero is left out.\<close>

datatype float64 = Finite real | PosInf | NegInf | NaN

section \<open>The cells in exact arithmetic\<close>

subsection \<open>Operators\<close>

text \<open>
  The operator \<^verbatim>\<open>/\<close> on two Python ints: a zero divisor raises
  \<^verbatim>\<open>ZeroDivisionError\<close>.
\<close>

definition int_truediv :: "int \<Rightarrow> int \<Rightarrow> py_error + float64" where
  "int_truediv x y =
     (if y = 0 then Inl ZeroDivisionError else Inr (Finite (real_of_int x / real_of_int y)))"

text \<open>
  The operator \<^verbatim>\<open>/\<close> with a \<^verbatim>\<open>numpy.float64\<close> on the left: numpy divides, and a zero
  divisor gives an infinity or not-a-number (with a warning), not an exception.
\<close>

definition float64_truediv :: "real \<Rightarrow> real \<Rightarrow> float64" where
  "float64_truediv x y =
     (if y = 0 then (if 0 < x then PosInf else if x < 0 then NegInf else NaN)
      else Finite (x / y))"

text \<open>The expression \<^verbatim>\<open>1 - mean_abs_percent_error\<close>.\<close>

fun one_minus :: "float64 \<Rightarrow> float64" where
  "one_minus (Finite m) = Finite (1 - m)"
| "one_minus PosInf = NegInf"
| "one_minus NegInf = PosInf"
| "one_minus NaN = NaN"

text \<open>\<^verbatim>\<open>math.sqrt\<close>: a negative argument raises \<^verbatim>\<open>ValueError\<close>.\<close>

definition math_sqrt :: "real \<Rightarrow> py_error + real" where
  "math_sqrt x = (if x < 0 then Inl ValueError else Inr (sqrt x))"

subsection \<open>The cell computing the root mean squared error\<close>

text \<open>
  Modelled from the spec: \<^verbatim>\<open>mean_squared_error\<close> is imported from \<^verbatim>\<open>sklearn.metrics\<close>
  and its code is not in the repository. The notebook describes it as a function that
  ``takes two arrays of values, and calculates the average squared error between them'',
  the specification as the ``mean of squared per-pair differences'' of two sequences of
  the same length with at least one element. The model gives that mean for such
  arguments and no value (\<open>None\<close>) for any other, where neither text says what the
  library call does.
\<close>

definition squared_errors :: "real list \<Rightarrow> real list \<Rightarrow> real list" where
  "squared_errors y_true y_pred = map (\<lambda>(a, p). (a - p)\<^sup>2) (zip y_true y_pred)"

definition mean_squared_error :: "real list \<Rightarrow> real list \<Rightarrow> real option" where
  "mean_squared_error y_true y_pred =
     (if length y_true = length y_pred \<and> y_true \<noteq> []
      then Some (sum_list (squared_errors y_true y_pred) / real (length y_true))
      else None)"

definition rmse :: "real list \<Rightarrow> real list \<Rightarrow> (py_error + real) option" where
  "rmse y_actual y_predict = map_option math_sqrt (mean_squared_error y_actual y_predict)"

subsection \<open>The cell computing MAPE and accuracy\<close>

record mape_sums =
  sum_actuals :: real
  sum_errors :: real

text \<open>The first three lines of the loop body: the difference, negated when negative.\<close>

definition abs_error :: "real \<Rightarrow> real \<Rightarrow> real" where
  "abs_error actual_val predict_val =
     (let e = actual_val - predict_val in if e < 0 then e * (- 1) else e)"

text \<open>
  The loop over \<^verbatim>\<open>zip(y_actual, y_predict)\<close>, which ends with the shorter of the two
  sequences, as \<^const>\<open>zip\<close> does.
\<close>

fun mape_loop :: "mape_sums \<Rightarrow> (real \<times> real) list \<Rightarrow> mape_sums" where
  "mape_loop s [] = s"
| "mape_loop s ((actual_val, predict_val) # rest) =
     mape_loop
       \<lparr>sum_actuals = sum_actuals s + actual_val,
        sum_errors = sum_errors s + abs_error actual_val predict_val\<rparr> rest"

text \<open>
  The division after the loop. When \<^verbatim>\<open>zip\<close> yields no pair, both sums are still the
  int \<open>0\<close> of the first line and Python divides two ints; after at least one pass
  \<^verbatim>\<open>sum_errors\<close> is a \<^verbatim>\<open>numpy.float64\<close> and numpy divides.
\<close>

definition mean_abs_percent_error :: "real list \<Rightarrow> real list \<Rightarrow> py_error + float64" where
  "mean_abs_percent_error y_actual y_predict =
     (let pairs = zip y_actual y_predict;
          s = mape_loop \<lparr>sum_actuals = 0, sum_errors = 0\<rparr> pairs
      in if pairs = [] then int_truediv 0 0
         else Inr (float64_truediv (sum_errors s) (sum_actuals s)))"

text \<open>What the cell prints under ``Model MAPE:'' and ``Model Accuracy:''.\<close>

record printed =
  model_mape :: float64
  model_accuracy :: float64

definition mape_cell :: "real list \<Rightarrow> real list \<Rightarrow> py_error + printed" where
  "mape_cell y_actual y_predict =
     (case mean_abs_percent_error y_actual y_predict of
        Inl e \<Rightarrow> Inl e
      | Inr m \<Rightarrow> Inr \<lparr>model_mape = m, model_accuracy = one_minus m\<rparr>)"

section \<open>The cells in double precision\<close>

text \<open>
  The same two cells with every operation rounded as IEEE 754 binary64 rounds it. The
  elements of the two sequences are finite doubles, given by their values.
\<close>

subsection \<open>Rounding\<close>

text \<open>Rounding a real to the nearest integer, a tie going to the even one.\<close>

definition rne :: "real \<Rightarrow> int" where
  "rne x =
     (let f = \<lfloor>x\<rfloor>; d = x - of_int f
      in if d < 1 / 2 then f else if 1 / 2 < d then f + 1 else if even f then f else f + 1)"

text \<open>
  The spacing of the doubles around \<open>x\<close>: \<open>2 powr (e - 52)\<close> in the binade
  \<open>2 powr e \<le> \<bar>x\<bar> < 2 powr (e + 1)\<close>, and \<open>2 powr (- 1074)\<close> below the smallest
  normal number \<open>2 powr (- 1022)\<close>.
\<close>

definition ulp :: "real \<Rightarrow> real" where
  "ulp x =
     (if \<bar>x\<bar> < 2 powr (- 1022) then 2 powr (- 1074)
      else 2 powr (of_int \<lfloor>log 2 \<bar>x\<bar>\<rfloor> - 52))"

text \<open>
  Round to nearest, ties to even, of IEEE 754 binary64: the nearest multiple of the
  spacing, and an infinity from \<open>2 ^ 1024\<close> on.
\<close>

definition round64 :: "real \<Rightarrow> float64" where
  "round64 x =
     (let y = ulp x * of_int (rne (x / ulp x))
      in if 2 ^ 1024 \<le> y then PosInf else if y \<le> - (2 ^ 1024) then NegInf else Finite y)"

subsection \<open>Operators on floats\<close>

fun fneg :: "float64 \<Rightarrow> float64" where
  "fneg (Finite x) = Finite (- x)"
| "fneg PosInf = NegInf"
| "fneg NegInf = PosInf"
| "fneg NaN = NaN"

fun fadd :: "float64 \<Rightarrow> float64 \<Rightarrow> float64" where
  "fadd (Finite x) (Finite y) = round64 (x + y)"
| "fadd NaN b = NaN"
| "fadd a NaN = NaN"
| "fadd PosInf NegInf = NaN"
| "fadd NegInf PosInf = NaN"
| "fadd PosInf b = PosInf"
| "fadd a PosInf = PosInf"
| "fadd NegInf b = NegInf"
| "fadd a NegInf = NegInf"

definition fsub :: "float64 \<Rightarrow> float64 \<Rightarrow> float64" where
  "fsub a b = fadd a (fneg b)"

text \<open>The sign of a product or quotient with an infinite operand.\<close>

definition signed_inf :: "bool \<Rightarrow> float64" where
  "signed_inf negative = (if negative then NegInf else PosInf)"

fun is_negative :: "float64 \<Rightarrow> bool" where
  "is_negative (Finite x) = (x < 0)"
| "is_negative NegInf = True"
| "is_negative PosInf = False"
| "is_negative NaN = False"

fun fmul :: "float64 \<Rightarrow> float64 \<Rightarrow> float64" where
  "fmul (Finite x) (Finite y) = round64 (x * y)"
| "fmul NaN b = NaN"
| "fmul a NaN = NaN"
| "fmul (Finite x) b = (if x = 0 then NaN else signed_inf ((x < 0) \<noteq> is_negative b))"
| "fmul PosInf b = (if b = Finite 0 then NaN else signed_inf (is_negative b))"
| "fmul NegInf b = (if b = Finite 0 then NaN else signed_inf (\<not> is_negative b))"

text \<open>
  Division as numpy does it: a finite number divided by zero is an infinity, zero
  divided by zero is not-a-number, and nothing is raised.
\<close>

fun fdiv :: "float64 \<Rightarrow> float64 \<Rightarrow> float64" where
  "fdiv (Finite x) (Finite y) =
     (if y = 0 then (if 0 < x then PosInf else if x < 0 then NegInf else NaN)
      else round64 (x / y))"
| "fdiv NaN b = NaN"
| "fdiv a NaN = NaN"
| "fdiv (Finite x) b = Finite 0"
| "fdiv PosInf (Finite y) = signed_inf (y < 0)"
| "fdiv NegInf (Finite y) = signed_inf (\<not> y < 0)"
| "fdiv PosInf b = NaN"
| "fdiv NegInf b = NaN"

text \<open>The comparison \<^verbatim>\<open>a < b\<close>, false when an operand is not-a-number.\<close>

fun fless :: "float64 \<Rightarrow> float64 \<Rightarrow> bool" where
  "fless (Finite x) (Finite y) = (x < y)"
| "fless NaN b = False"
| "fless a NaN = False"
| "fless NegInf b = (b \<noteq> NegInf)"
| "fless PosInf b = False"
| "fless (Finite x) b = (b = PosInf)"


subsection \<open>The cell computing the root mean squared error\<close>




subsection \<open>The cell computing MAPE and accuracy\<close>

record mape_sums64 =
  sum_actuals64 :: float64
  sum_errors64 :: float64

definition abs_error64 :: "real \<Rightarrow> real \<Rightarrow> float64" where
  "abs_error64 actual_val predict_val =
     (let e = fsub (Finite actual_val) (Finite predict_val)
      in if fless e (Finite 0) then fmul e (Finite (- 1)) else e)"

fun mape_loop64 :: "mape_sums64 \<Rightarrow> (real \<times> real) list \<Rightarrow> mape_sums64" where
  "mape_loop64 s [] = s"
| "mape_loop64 s ((actual_val, predict_val) # rest) =
     mape_loop64
       \<lparr>sum_actuals64 = fadd (sum_actuals64 s) (Finite actual_val),
        sum_errors64 = fadd (sum_errors64 s) (abs_error64 actual_val predict_val)\<rparr> rest"

definition mean_abs_percent_error64 :: "real list \<Rightarrow> real list \<Rightarrow> py_error + float64" where
  "mean_abs_percent_error64 y_actual y_predict =
     (let pairs = zip y_actual y_predict;
          s = mape_loop64 \<lparr>sum_actuals64 = Finite 0, sum_errors64 = Finite 0\<rparr> pairs
      in if pairs = [] then int_truediv 0 0
         else Inr (fdiv (sum_errors64 s) (sum_actuals64 s)))"

text \<open>What the cell prints, with the subtraction \<^verbatim>\<open>1 - mean_abs_percent_error\<close> of floats.\<close>

definition mape_cell64 :: "real list \<Rightarrow> real list \<Rightarrow> py_error + printed" where
  "mape_cell64 y_actual y_predict =
     (case mean_abs_percent_error64 y_actual y_predict of
        Inl e \<Rightarrow> Inl e
      | Inr m \<Rightarrow> Inr \<lparr>model_mape = m, model_accuracy = fsub (Finite 1) m\<rparr>)"

section \<open>Definitions following the words of the specification\<close>

text \<open>
  The error term and the accumulated sum of errors written with the absolute value, and
  the textbook MAPE (the mean of the per-pair percentage errors) that the specification
  contrasts with the notebook's ratio of sums.
\<close>

definition abs_error_spec :: "real \<Rightarrow> real \<Rightarrow> real" where
  "abs_error_spec a p = \<bar>a - p\<bar>"

definition sum_errors_spec :: "real list \<Rightarrow> real list \<Rightarrow> real" where
  "sum_errors_spec actual predicted =
     sum_list (map (\<lambda>(a, p). abs_error_spec a p) (zip actual predicted))"

definition mean_of_ratios_spec :: "real list \<Rightarrow> real list \<Rightarrow> real" where
  "mean_of_ratios_spec actual predicted =
     sum_list (map (\<lambda>(a, p). \<bar>a - p\<bar> / \<bar>a\<bar>) (zip actual predicted)) / real (length actual)"

section \<open>Auxiliary facts\<close>

subsection \<open>Exact arithmetic\<close>

lemma abs_error_abs: "abs_error a p = \<bar>a - p\<bar>"
  by (simp add: abs_error_def Let_def)

lemma mape_loop_sum_errors:
  "sum_errors (mape_loop s ps) = sum_errors s + (\<Sum>(a, p)\<leftarrow>ps. \<bar>a - p\<bar>)"
  by (induction s ps rule: mape_loop.induct) (simp_all add: abs_error_abs)

lemma mape_loop_sum_actuals:
  "sum_actuals (mape_loop s ps) = sum_actuals s + (\<Sum>(a, p)\<leftarrow>ps. a)"
  by (induction s ps rule: mape_loop.induct) simp_all

lemma sum_list_zip_nth:
  fixes f :: "'a \<times> 'b \<Rightarrow> real"
  shows "sum_list (map f (zip xs ys)) = (\<Sum>i<min (length xs) (length ys). f (xs ! i, ys ! i))"
proof -
  have "sum_list (map f (zip xs ys)) = (\<Sum>i = 0..<length (zip xs ys). map f (zip xs ys) ! i)"
    by (simp only: sum_list_sum_nth length_map)
  also have "\<dots> = (\<Sum>i = 0..<length (zip xs ys). f (xs ! i, ys ! i))"
    by (rule sum.cong) simp_all
  finally show ?thesis
    by (simp add: atLeast0LessThan)
qed

text \<open>
  The cell in closed form, for any two sequences: the quotient of the two sums taken
  over the pairs that \<^verbatim>\<open>zip\<close> yields, unless there is no pair.
\<close>

lemma mape_closed_form:
  "mean_abs_percent_error ya yp =
     (if ya = [] \<or> yp = [] then Inl ZeroDivisionError
      else Inr (float64_truediv (\<Sum>i<min (length ya) (length yp). \<bar>ya ! i - yp ! i\<bar>)
                                (\<Sum>i<min (length ya) (length yp). ya ! i)))"
proof -
  have e: "(\<Sum>(a, p)\<leftarrow>zip ya yp. \<bar>a - p\<bar>) = (\<Sum>i<min (length ya) (length yp). \<bar>ya ! i - yp ! i\<bar>)"
    using sum_list_zip_nth [of "\<lambda>(a, p). \<bar>a - p\<bar>" ya yp] by simp
  have a: "(\<Sum>(a, p)\<leftarrow>zip ya yp. a) = (\<Sum>i<min (length ya) (length yp). ya ! i)"
    using sum_list_zip_nth [of "\<lambda>(a, p). a" ya yp] by simp
  have z: "zip ya yp = [] \<longleftrightarrow> ya = [] \<or> yp = []"
    by (cases ya; cases yp) simp_all
  show ?thesis
    by (simp add: mean_abs_percent_error_def Let_def mape_loop_sum_errors
        mape_loop_sum_actuals e a z int_truediv_def)
qed

lemma sum_abs_nonneg:
  fixes ya yp :: "real list"
  shows "0 \<le> (\<Sum>i<n. \<bar>ya ! i - yp ! i\<bar>)"
  by (rule sum_nonneg) simp

lemma sum_list_squared_errors:
  "length ya = length yp \<Longrightarrow>
     sum_list (squared_errors ya yp) = (\<Sum>i<length ya. (ya ! i - yp ! i)\<^sup>2)"
  using sum_list_zip_nth [of "\<lambda>(a, p). (a - p)\<^sup>2" ya yp]
  by (simp add: squared_errors_def)

lemma sum_list_nth_lessThan:
  fixes xs :: "real list"
  shows "sum_list xs = (\<Sum>i<length xs. xs ! i)"
  by (simp add: sum_list_sum_nth atLeast0LessThan)

lemma zip_take_min:
  "zip (take (min (length xs) (length ys)) xs) (take (min (length xs) (length ys)) ys) = zip xs ys"
  by (simp add: take_zip [symmetric])

lemma sum_abs_zero_iff:
  fixes ya yp :: "real list"
  assumes "length ya = length yp"
  shows "(\<Sum>i<length ya. \<bar>ya ! i - yp ! i\<bar>) = 0 \<longleftrightarrow> ya = yp"
proof -
  have "(\<Sum>i<length ya. \<bar>ya ! i - yp ! i\<bar>) = 0 \<longleftrightarrow> (\<forall>i<length ya. \<bar>ya ! i - yp ! i\<bar> = 0)"
    by (subst sum_nonneg_eq_0_iff) auto
  also have "\<dots> \<longleftrightarrow> ya = yp"
    using assms by (auto simp: list_eq_iff_nth_eq)
  finally show ?thesis .
qed

subsection \<open>Rounding\<close>

lemma rne_of_int: "rne (of_int k) = k"
  by (simp add: rne_def)

lemma rne_near:
  assumes "0 \<le> t" and "t < 1 / 2"
  shows "rne (of_int k + t) = k"
proof -
  have "\<lfloor>of_int k + t\<rfloor> = k"
    using assms by (intro floor_unique) auto
  then show ?thesis
    using assms by (simp add: rne_def)
qed

lemma rne_small:
  assumes "\<bar>y\<bar> < 1 / 2"
  shows "rne y = 0"
proof (cases "0 \<le> y")
  case True
  then show ?thesis
    using assms rne_near [of y 0] by simp
next
  case False
  then have "\<lfloor>y\<rfloor> = - 1"
    using assms by (intro floor_unique) auto
  then show ?thesis
    using assms False by (simp add: rne_def)
qed

lemma ulp_tiny: "\<bar>x\<bar> < 2 powr (- 1022) \<Longrightarrow> ulp x = 2 powr (- 1074)"
  by (simp add: ulp_def)


text \<open>A number below half the smallest double rounds to zero.\<close>

lemma round64_tiny:
  assumes "\<bar>x\<bar> < 2 powr (- 1075)"
  shows "round64 x = Finite 0"
proof -
  have lt: "(2::real) powr (- 1075) < 2 powr (- 1022)"
    by simp
  have u: "ulp x = 2 powr (- 1074)"
    using assms lt by (intro ulp_tiny) linarith
  have "(2::real) powr (- 1074 - 1) = 2 powr (- 1074) / 2 powr 1"
    by (rule powr_diff)
  then have h: "(2::real) powr (- 1075) = 2 powr (- 1074) / 2"
    by simp
  have "\<bar>x / 2 powr (- 1074)\<bar> < 1 / 2"
    using assms h by (simp add: field_simps)
  then have "rne (x / 2 powr (- 1074)) = 0"
    by (rule rne_small)
  then show ?thesis
    by (simp add: round64_def u)
qed

lemma round64_0: "round64 0 = Finite 0"
  by (rule round64_tiny) simp



lemma round64_not_NaN: "round64 x \<noteq> NaN"
  by (simp add: round64_def Let_def)

text \<open>An integer below \<open>2 ^ 53\<close> in absolute value is a double.\<close>

lemma round64_of_int:
  assumes "\<bar>k\<bar> < 2 ^ 53"
  shows "round64 (of_int k) = Finite (of_int k)"
proof (cases "k = 0")
  case True
  then show ?thesis by (simp add: round64_0)
next
  case False
  define x :: real where "x = \<bar>of_int k\<bar>"
  define e where "e = \<lfloor>log 2 x\<rfloor>"
  have x1: "1 \<le> x"
    using False by (simp add: x_def)
  have "x < 2 ^ 53"
    using assms unfolding x_def by (metis of_int_abs of_int_less_numeral_power_cancel_iff)
  then have x53: "x < 2 powr 53"
    by simp
  have "0 \<le> log 2 x"
    using x1 by simp
  then have e0: "0 \<le> e"
    by (simp add: e_def)
  have "log 2 x < 53"
    using x1 x53 by (simp add: log_less_iff del: powr_numeral)
  then have "e < 53"
    unfolding e_def by (simp add: floor_less_iff)
  then have e52: "e \<le> 52"
    by simp
  define n where "n = nat (52 - e)"
  have "(2::real) powr (- 1022) < 1"
    by (simp add: powr_less_one)
  then have "\<not> x < 2 powr (- 1022)"
    using x1 by linarith
  then have "ulp (of_int k) = 2 powr (of_int e - 52)"
    by (simp add: ulp_def x_def [symmetric] e_def [symmetric])
  also have "of_int e - 52 = - real n"
    using e52 by (simp add: n_def)
  also have "(2::real) powr (- real n) = 1 / 2 ^ n"
    by (simp add: powr_minus powr_realpow field_simps)
  finally have u: "ulp (of_int k) = 1 / 2 ^ n" .
  have q: "of_int k / (1 / 2 ^ n) = (of_int (k * 2 ^ n) :: real)"
    by simp
  have y: "1 / 2 ^ n * (of_int (k * 2 ^ n) :: real) = of_int k"
    by simp
  have "\<bar>of_int k :: real\<bar> < 2 ^ 53"
    using \<open>x < 2 ^ 53\<close> by (simp add: x_def)
  moreover have "(2::real) ^ 53 < 2 ^ 1024"
    by simp
  ultimately have b: "\<not> 2 ^ 1024 \<le> (of_int k :: real)" "\<not> (of_int k :: real) \<le> - (2 ^ 1024)"
    by linarith+
  show ?thesis
    unfolding round64_def u q rne_of_int Let_def y using b by simp
qed

lemma round64_numeral:
  "(numeral n :: int) < 2 ^ 53 \<Longrightarrow> round64 (numeral n) = Finite (numeral n)"
  using round64_of_int [of "numeral n"] by simp

lemma round64_neg_numeral:
  "(numeral n :: int) < 2 ^ 53 \<Longrightarrow> round64 (- numeral n) = Finite (- numeral n)"
  using round64_of_int [of "- numeral n"] by simp

lemma round64_1: "round64 1 = Finite 1"
  using round64_of_int [of 1] by simp

lemma round64_neg_1: "round64 (- 1) = Finite (- 1)"
  using round64_of_int [of "- 1"] by simp

text \<open>Rounding keeps the sign.\<close>

lemma ulp_pos: "0 < ulp x"
  by (simp add: ulp_def)

lemma rne_nonneg:
  assumes "0 \<le> y"
  shows "0 \<le> rne y"
proof -
  have "0 \<le> \<lfloor>y\<rfloor>"
    using assms by simp
  then show ?thesis
    by (simp add: rne_def Let_def)
qed

lemma round64_nonneg:
  assumes "0 \<le> x"
  shows "\<not> is_negative (round64 x)"
proof -
  have "0 \<le> x / ulp x"
    using assms ulp_pos [of x] by simp
  then have "0 \<le> rne (x / ulp x)"
    by (rule rne_nonneg)
  then have "0 \<le> ulp x * of_int (rne (x / ulp x))"
    using ulp_pos [of x] by simp
  then show ?thesis
    by (simp add: round64_def Let_def not_less)
qed

subsection \<open>The cells in double precision on identical sequences\<close>









subsection \<open>The sum of errors in double precision is never negative\<close>

lemma abs_error64_nonneg:
  "\<not> is_negative (abs_error64 a p) \<and> abs_error64 a p \<noteq> NaN"
proof -
  obtain e where e: "fsub (Finite a) (Finite p) = e"
    by simp
  then have r: "e = round64 (a - p)"
    by (simp add: fsub_def)
  show ?thesis
  proof (cases e)
    case (Finite x)
    then show ?thesis
      using e round64_nonneg [of "- x"] round64_not_NaN [of "- x"]
      by (simp add: abs_error64_def Let_def)
  next
    case PosInf
    then show ?thesis
      using e by (simp add: abs_error64_def Let_def)
  next
    case NegInf
    then show ?thesis
      using e by (simp add: abs_error64_def Let_def signed_inf_def)
  next
    case NaN
    then show ?thesis
      using r round64_not_NaN [of "a - p"] by simp
  qed
qed

lemma fadd_nonneg:
  assumes "\<not> is_negative a" and "a \<noteq> NaN" and "\<not> is_negative b" and "b \<noteq> NaN"
  shows "\<not> is_negative (fadd a b) \<and> fadd a b \<noteq> NaN"
  using assms by (cases a; cases b) (simp_all add: round64_nonneg round64_not_NaN)

lemma mape_loop64_errors_nonneg:
  "\<not> is_negative (sum_errors64 s) \<Longrightarrow> sum_errors64 s \<noteq> NaN \<Longrightarrow>
     \<not> is_negative (sum_errors64 (mape_loop64 s ps)) \<and> sum_errors64 (mape_loop64 s ps) \<noteq> NaN"
proof (induction s ps rule: mape_loop64.induct)
  case (1 s)
  then show ?case by simp
next
  case (2 s actual_val predict_val rest)
  have "\<not> is_negative (fadd (sum_errors64 s) (abs_error64 actual_val predict_val))
      \<and> fadd (sum_errors64 s) (abs_error64 actual_val predict_val) \<noteq> NaN"
    using "2.prems" abs_error64_nonneg [of actual_val predict_val] by (intro fadd_nonneg) simp_all
  then show ?case
    using "2.IH" by simp
qed

lemma fdiv_by_zero:
  "\<not> is_negative a \<Longrightarrow> a \<noteq> NaN \<Longrightarrow> fdiv a (Finite 0) = PosInf \<or> fdiv a (Finite 0) = NaN"
  by (cases a) (auto simp add: signed_inf_def)

section \<open>The claims\<close>

text \<open>
  C1. For two sequences of the same length with at least one element, the MAPE of the
  second cell is the sum of the absolute differences \<open>\<bar>actual[i] - predicted[i]\<bar>\<close>
  divided by the sum of the actual values; with a zero sum the division gives
  not-a-number when the sequences are equal and an infinity otherwise. This ratio of
  sums is not the mean of the per-pair percentage errors: on \<open>[10, 20, 30]\<close> and
  \<open>[12, 18, 33]\<close> the two differ.
\<close>

theorem mape_is_ratio_of_sums:
  assumes "length actual = length predicted" and "actual \<noteq> []"
  shows "mean_abs_percent_error actual predicted =
           (if sum_list actual = 0
            then Inr (if actual = predicted then NaN else PosInf)
            else Inr (Finite ((\<Sum>i<length actual. \<bar>actual ! i - predicted ! i\<bar>)
                              / sum_list actual)))
         \<and> mean_abs_percent_error [10, 20, 30] [12, 18, 33]
             \<noteq> Inr (Finite (mean_of_ratios_spec [10, 20, 30] [12, 18, 33]))"
proof
  have ne: "predicted \<noteq> []"
    using assms by auto
  have "0 < (\<Sum>i<length actual. \<bar>actual ! i - predicted ! i\<bar>) \<longleftrightarrow> actual \<noteq> predicted"
    using sum_abs_zero_iff [OF assms(1)] sum_abs_nonneg [of actual predicted "length actual"]
    by linarith
  then show "mean_abs_percent_error actual predicted =
           (if sum_list actual = 0
            then Inr (if actual = predicted then NaN else PosInf)
            else Inr (Finite ((\<Sum>i<length actual. \<bar>actual ! i - predicted ! i\<bar>)
                              / sum_list actual)))"
    using assms ne sum_abs_zero_iff [OF assms(1)]
    by (auto simp add: mape_closed_form float64_truediv_def sum_list_nth_lessThan)
  show "mean_abs_percent_error [10, 20, 30] [12, 18, 33]
             \<noteq> Inr (Finite (mean_of_ratios_spec [10, 20, 30] [12, 18, 33]))"
    by (simp add: mean_abs_percent_error_def mean_of_ratios_spec_def float64_truediv_def
        abs_error_def)
qed

theorem mape_is_ratio_of_sums_witness:
  "length [4, 6 :: real] = length [5, 3 :: real] \<and> [4, 6 :: real] \<noteq> []
   \<and> mean_abs_percent_error [4, 6] [5, 3] = Inr (Finite (2 / 5))"
  using mape_is_ratio_of_sums [of "[4, 6]" "[5, 3]"]
  by (simp add: lessThan_Suc eval_nat_numeral)

text \<open>
  C2. The specification lets \<open>evaluate\<close> reject, with an InvalidInput error, two
  sequences of different length or an empty sequence. The second cell has no such check:
  for an actual sequence of length 3 and a predicted one of length 2 it returns a
  MAPE and an accuracy, computed from the first two pairs.
\<close>

theorem mape_cell_no_length_check_counterexample:
  "length [10, 20, 30 :: real] = 3 \<and> length [12, 18 :: real] = 2
   \<and> mape_cell [10, 20, 30] [12, 18]
       = Inr \<lparr>model_mape = Finite (2 / 15), model_accuracy = Finite (13 / 15)\<rparr>"
  by (simp add: mape_cell_def mean_abs_percent_error_def float64_truediv_def abs_error_def)

text \<open>
  C2, as the code has it. When either sequence is empty the second cell fails, with
  \<^verbatim>\<open>ZeroDivisionError\<close> (it divides the int 0 by the int 0). A difference in length is
  no failure of the second cell: for two sequences of different lengths, none of them
  empty, it returns a result. Both hold in exact arithmetic and in double precision.
\<close>

theorem mape_cell_fails_only_when_empty:
  "(actual = [] \<or> predicted = [] \<longrightarrow>
      mape_cell actual predicted = Inl ZeroDivisionError
      \<and> mape_cell64 actual predicted = Inl ZeroDivisionError)
   \<and> (length actual \<noteq> length predicted \<and> actual \<noteq> [] \<and> predicted \<noteq> [] \<longrightarrow>
        \<not> isl (mape_cell actual predicted) \<and> \<not> isl (mape_cell64 actual predicted))"
proof -
  have z: "zip actual predicted = [] \<longleftrightarrow> actual = [] \<or> predicted = []"
    by (cases actual; cases predicted) simp_all
  show ?thesis
    by (auto simp add: mape_cell_def mape_closed_form mape_cell64_def
        mean_abs_percent_error64_def Let_def z int_truediv_def)
qed

theorem mape_cell_fails_only_when_empty_witness:
  "mape_cell [] [12, 18] = Inl ZeroDivisionError
   \<and> mape_cell64 [] [12, 18] = Inl ZeroDivisionError
   \<and> mape_cell [10, 20, 30] [] = Inl ZeroDivisionError
   \<and> mape_cell64 [10, 20, 30] [] = Inl ZeroDivisionError
   \<and> \<not> isl (mape_cell [10, 20, 30] [12, 18])
   \<and> \<not> isl (mape_cell64 [10, 20, 30] [12, 18])"
  using mape_cell_fails_only_when_empty [of "[]" "[12, 18]"]
    mape_cell_fails_only_when_empty [of "[10, 20, 30]" "[]"]
    mape_cell_fails_only_when_empty [of "[10, 20, 30]" "[12, 18]"]
  by simp

text \<open>
  C3. The specification lets \<open>evaluate\<close> fail with a division-by-zero error, instead of
  returning an infinity or not-a-number, when the actual values sum to zero. The second
  cell raises nothing there: on \<open>[0, 0, 0]\<close> and \<open>[1, 2, 3]\<close> the loop ends with the sums
  0 and 6, the left operand of the division is a \<^verbatim>\<open>numpy.float64\<close>, the MAPE is the
  positive infinity and the accuracy the negative one, in double precision as in exact
  arithmetic.
\<close>

theorem zero_sum_returns_infinity_counterexample:
  "length [0, 0, 0 :: real] = length [1, 2, 3 :: real] \<and> [0, 0, 0 :: real] \<noteq> []
   \<and> sum_list [0, 0, 0 :: real] = 0
   \<and> mape_loop64 \<lparr>sum_actuals64 = Finite 0, sum_errors64 = Finite 0\<rparr> (zip [0, 0, 0] [1, 2, 3])
       = \<lparr>sum_actuals64 = Finite 0, sum_errors64 = Finite 6\<rparr>
   \<and> mape_cell64 [0, 0, 0] [1, 2, 3] = Inr \<lparr>model_mape = PosInf, model_accuracy = NegInf\<rparr>
   \<and> mape_cell [0, 0, 0] [1, 2, 3] = Inr \<lparr>model_mape = PosInf, model_accuracy = NegInf\<rparr>"
proof -
  have l: "mape_loop64 \<lparr>sum_actuals64 = Finite 0, sum_errors64 = Finite 0\<rparr>
      (zip [0, 0, 0] [1, 2, 3]) = \<lparr>sum_actuals64 = Finite 0, sum_errors64 = Finite 6\<rparr>"
    by (simp add: abs_error64_def fsub_def round64_0 round64_1 round64_neg_1
        round64_numeral round64_neg_numeral)
  then have "mape_cell64 [0, 0, 0] [1, 2, 3] = Inr \<lparr>model_mape = PosInf, model_accuracy = NegInf\<rparr>"
    by (simp add: mape_cell64_def mean_abs_percent_error64_def Let_def fsub_def
        del: zip_Cons_Cons)
  moreover have "mape_cell [0, 0, 0] [1, 2, 3] = Inr \<lparr>model_mape = PosInf, model_accuracy = NegInf\<rparr>"
    by (simp add: mape_cell_def mean_abs_percent_error_def float64_truediv_def abs_error_def)
  ultimately show ?thesis
    using l by (simp del: zip_Cons_Cons)
qed

text \<open>
  C3, as the code has it. For two sequences of the same length with at least one
  element, for which the loop ends with a zero sum of actual values, the second cell
  raises no error and returns an infinity or not-a-number for the MAPE.
\<close>

theorem zero_sum_gives_infinity_or_nan:
  assumes "length actual = length predicted" and "actual \<noteq> []"
    and "sum_actuals64 (mape_loop64 \<lparr>sum_actuals64 = Finite 0, sum_errors64 = Finite 0\<rparr>
           (zip actual predicted)) = Finite 0"
  shows "\<exists>out. mape_cell64 actual predicted = Inr out
           \<and> mean_abs_percent_error64 actual predicted = Inr (model_mape out)
           \<and> (model_mape out = PosInf \<or> model_mape out = NaN)"
proof -
  let ?s = "mape_loop64 \<lparr>sum_actuals64 = Finite 0, sum_errors64 = Finite 0\<rparr> (zip actual predicted)"
  have "\<not> is_negative (sum_errors64 ?s) \<and> sum_errors64 ?s \<noteq> NaN"
    by (rule mape_loop64_errors_nonneg) simp_all
  then have d: "fdiv (sum_errors64 ?s) (Finite 0) = PosInf \<or> fdiv (sum_errors64 ?s) (Finite 0) = NaN"
    by (intro fdiv_by_zero) simp_all
  have "zip actual predicted \<noteq> []"
    using assms(1,2) by (cases actual; cases predicted) simp_all
  then have "mean_abs_percent_error64 actual predicted = Inr (fdiv (sum_errors64 ?s) (Finite 0))"
    using assms(3) by (simp add: mean_abs_percent_error64_def Let_def)
  then show ?thesis
    using d by (auto simp add: mape_cell64_def)
qed

theorem zero_sum_gives_infinity_or_nan_witness:
  "length [3, - 3 :: real] = length [4, - 3 :: real] \<and> [3, - 3 :: real] \<noteq> []
   \<and> sum_actuals64 (mape_loop64 \<lparr>sum_actuals64 = Finite 0, sum_errors64 = Finite 0\<rparr>
        (zip [3, - 3] [4, - 3])) = Finite 0
   \<and> mape_cell64 [3, - 3] [4, - 3] = Inr \<lparr>model_mape = PosInf, model_accuracy = NegInf\<rparr>
   \<and> mape_cell64 [3, - 3] [3, - 3] = Inr \<lparr>model_mape = NaN, model_accuracy = NaN\<rparr>"
proof -
  have l: "mape_loop64 \<lparr>sum_actuals64 = Finite 0, sum_errors64 = Finite 0\<rparr>
        (zip [3, - 3] [4, - 3]) = \<lparr>sum_actuals64 = Finite 0, sum_errors64 = Finite 1\<rparr>"
    by (simp add: abs_error64_def fsub_def round64_0 round64_1 round64_neg_1 round64_numeral)
  have l': "mape_loop64 \<lparr>sum_actuals64 = Finite 0, sum_errors64 = Finite 0\<rparr>
        (zip [3, - 3] [3, - 3]) = \<lparr>sum_actuals64 = Finite 0, sum_errors64 = Finite 0\<rparr>"
    by (simp add: abs_error64_def fsub_def round64_0 round64_numeral)
  show ?thesis
    using l l' zero_sum_gives_infinity_or_nan [of "[3, - 3]" "[4, - 3]"]
      zero_sum_gives_infinity_or_nan [of "[3, - 3]" "[3, - 3]"]
    by (simp add: mape_cell64_def mean_abs_percent_error64_def Let_def fsub_def
        del: zip_Cons_Cons)
qed

text \<open>
  C4. For two sequences of the same length with at least one element, the first cell
  returns the square root of the mean of the squared differences
  \<open>(actual[i] - predicted[i])\<^sup>2\<close>, and that value is not negative.
\<close>

theorem rmse_is_root_mean_square:
  assumes "length actual = length predicted" and "actual \<noteq> []"
  shows "\<exists>r. rmse actual predicted = Some (Inr r)
           \<and> r = sqrt ((\<Sum>i<length actual. (actual ! i - predicted ! i)\<^sup>2) / real (length actual))
           \<and> 0 \<le> r"
proof -
  have "0 \<le> (\<Sum>i<length actual. (actual ! i - predicted ! i)\<^sup>2)"
    by (rule sum_nonneg) simp
  then have "0 \<le> (\<Sum>i<length actual. (actual ! i - predicted ! i)\<^sup>2) / real (length actual)"
    by simp
  then show ?thesis
    using assms
    by (simp add: rmse_def mean_squared_error_def math_sqrt_def sum_list_squared_errors not_less)
qed

theorem rmse_is_root_mean_square_witness:
  "length [1, 5 :: real] = length [4, 1 :: real] \<and> [1, 5 :: real] \<noteq> []
   \<and> (\<exists>r. rmse [1, 5] [4, 1] = Some (Inr r) \<and> r = sqrt (25 / 2) \<and> 0 \<le> r)"
  using rmse_is_root_mean_square [of "[1, 5]" "[4, 1]"]
  by (simp add: lessThan_Suc eval_nat_numeral)

text \<open>
  C5. For two sequences of the same length with at least one element and a nonzero sum
  of actual values, the second cell returns its MAPE together with an accuracy that is
  exactly one minus that MAPE. Nothing clamps it: the accuracy is negative exactly when
  the MAPE is greater than one.
\<close>

theorem accuracy_is_one_minus_mape:
  assumes "length actual = length predicted" and "actual \<noteq> []" and "sum_list actual \<noteq> 0"
  shows "\<exists>out m. mape_cell actual predicted = Inr out
           \<and> mean_abs_percent_error actual predicted = Inr (model_mape out)
           \<and> model_mape out = Finite m
           \<and> model_accuracy out = Finite (1 - m)
           \<and> (1 - m < 0 \<longleftrightarrow> 1 < m)"
proof -
  have ne: "predicted \<noteq> []"
    using assms by auto
  show ?thesis
    using assms ne
    by (simp add: mape_cell_def mape_closed_form float64_truediv_def sum_list_nth_lessThan)
qed

theorem accuracy_is_one_minus_mape_witness:
  "length [1 :: real] = length [3 :: real] \<and> [1 :: real] \<noteq> [] \<and> sum_list [1 :: real] \<noteq> 0
   \<and> mape_cell [1] [3] = Inr \<lparr>model_mape = Finite 2, model_accuracy = Finite (- 1)\<rparr>"
  using accuracy_is_one_minus_mape [of "[1]" "[3]"]
  by (simp add: mape_cell_def mean_abs_percent_error_def float64_truediv_def abs_error_def)







text \<open>
  C8. On \<open>actual = [10, 20, 30]\<close> and \<open>predicted = [12, 18, 33]\<close> the squared errors
  are \<open>[4, 4, 9]\<close> with mean \<open>17 / 3\<close>, so that the RMSE is \<open>sqrt (17 / 3)\<close>, which
  rounds to 2.3805; the absolute errors are \<open>[2, 2, 3]\<close>, the loop ends with the sums 7
  and 60, the MAPE is \<open>7 / 60\<close>, which rounds to 0.11667, and the accuracy is
  \<open>53 / 60\<close>, which rounds to 0.88333.
\<close>

theorem concrete_scenario:
  "squared_errors [10, 20, 30] [12, 18, 33] = [4, 4, 9]
   \<and> mean_squared_error [10, 20, 30] [12, 18, 33] = Some (17 / 3)
   \<and> rmse [10, 20, 30] [12, 18, 33] = Some (Inr (sqrt (17 / 3)))
   \<and> 2.38045 < sqrt (17 / 3) \<and> sqrt (17 / 3) < 2.38055
   \<and> map (\<lambda>(a, p). abs_error a p) (zip [10, 20, 30] [12, 18, 33]) = [2, 2, 3]
   \<and> mape_loop \<lparr>sum_actuals = 0, sum_errors = 0\<rparr> (zip [10, 20, 30] [12, 18, 33])
       = \<lparr>sum_actuals = 60, sum_errors = 7\<rparr>
   \<and> mape_cell [10, 20, 30] [12, 18, 33]
       = Inr \<lparr>model_mape = Finite (7 / 60), model_accuracy = Finite (53 / 60)\<rparr>
   \<and> (0.116665 :: real) < 7 / 60 \<and> (7 / 60 :: real) < 0.116675
   \<and> (0.883325 :: real) < 53 / 60 \<and> (53 / 60 :: real) < 0.883335"
proof -
  have lo: "2.38045 < sqrt (17 / 3)"
    by (rule real_less_rsqrt) (simp add: power2_eq_square)
  have hi: "sqrt (17 / 3) < 2.38055"
    by (rule real_less_lsqrt) (simp_all add: power2_eq_square)
  have l: "mape_loop \<lparr>sum_actuals = 0, sum_errors = 0\<rparr> (zip [10, 20, 30] [12, 18, 33])
       = \<lparr>sum_actuals = 60, sum_errors = 7\<rparr>"
    by (simp add: abs_error_def)
  show ?thesis
    using lo hi l
    by (simp add: squared_errors_def mean_squared_error_def rmse_def math_sqrt_def
        mape_cell_def mean_abs_percent_error_def float64_truediv_def abs_error_def)
qed

text \<open>
  C9. When the two sequences have different lengths, none is empty and the first
  \<open>min m n\<close> actual values have a nonzero sum, the second cell raises nothing: it returns
  the ratio of sums over the first \<open>min m n\<close> pairs, which is what it returns when the
  longer sequence is cut to the length of the shorter one.
\<close>

theorem mape_truncates_to_shorter:
  assumes "length actual \<noteq> length predicted" and "actual \<noteq> []" and "predicted \<noteq> []"
    and "(\<Sum>i<min (length actual) (length predicted). actual ! i) \<noteq> 0"
  shows "mean_abs_percent_error actual predicted =
           Inr (Finite ((\<Sum>i<min (length actual) (length predicted). \<bar>actual ! i - predicted ! i\<bar>)
                        / (\<Sum>i<min (length actual) (length predicted). actual ! i)))
         \<and> mean_abs_percent_error actual predicted =
             mean_abs_percent_error (take (min (length actual) (length predicted)) actual)
                                    (take (min (length actual) (length predicted)) predicted)
         \<and> \<not> isl (mape_cell actual predicted)"
proof (intro conjI)
  show "mean_abs_percent_error actual predicted =
           Inr (Finite ((\<Sum>i<min (length actual) (length predicted). \<bar>actual ! i - predicted ! i\<bar>)
                        / (\<Sum>i<min (length actual) (length predicted). actual ! i)))"
    using assms by (simp add: mape_closed_form float64_truediv_def)
  show "mean_abs_percent_error actual predicted =
             mean_abs_percent_error (take (min (length actual) (length predicted)) actual)
                                    (take (min (length actual) (length predicted)) predicted)"
    by (simp only: mean_abs_percent_error_def zip_take_min)
  show "\<not> isl (mape_cell actual predicted)"
    using assms by (simp add: mape_cell_def mape_closed_form)
qed

theorem mape_truncates_to_shorter_witness:
  "length [10, 20, 30 :: real] \<noteq> length [12, 18 :: real]
   \<and> mean_abs_percent_error [10, 20, 30] [12, 18] = Inr (Finite (2 / 15))
   \<and> mean_abs_percent_error [10, 20, 30] [12, 18] = mean_abs_percent_error [10, 20] [12, 18]
   \<and> \<not> isl (mape_cell [10, 20, 30] [12, 18])"
  using mape_truncates_to_shorter [of "[10, 20, 30]" "[12, 18]"]
  by (simp add: lessThan_Suc eval_nat_numeral mean_abs_percent_error_def float64_truediv_def
      abs_error_def)

text \<open>
  C10. The branch that multiplies a negative difference by \<open>-1\<close> makes the error term
  of a pair the absolute value \<open>\<bar>actual[i] - predicted[i]\<bar>\<close> for all reals, and the sum
  the loop accumulates in \<open>sum_errors\<close> is the sum of these absolute differences: the
  computation with the branch equals the one written with \<open>abs\<close>.
\<close>

theorem branch_is_absolute_value:
  "abs_error = abs_error_spec
   \<and> sum_errors (mape_loop \<lparr>sum_actuals = 0, sum_errors = 0\<rparr> (zip actual predicted))
       = sum_errors_spec actual predicted"
  by (simp add: fun_eq_iff abs_error_abs abs_error_spec_def sum_errors_spec_def mape_loop_sum_errors)

end
